theory Spec2Isabelle
  imports Complex_Main "HOL-Library.Word" "HOL-Library.Signed_Division"
begin

section \<open>Data model of package network (network/quality.go)\<close>

text \<open>
  Go's \<open>int64\<close> and \<open>time.Duration\<close> (an \<open>int64\<close> count of nanoseconds) are 64-bit
  words read in two's complement with \<open>sint\<close>; \<open>+\<close> wraps as in Go. A \<open>time.Time\<close>
  is a reading of the monotonic clock in nanoseconds. The two \<open>int\<close> fields of the
  configuration and the status code of a response are only compared, reduced modulo a
  length or converted to \<open>int64\<close>, and are integers.
\<close>

type_synonym int64 = "64 word"
type_synonym Duration = "64 word"
type_synonym Time = int

definition Millisecond :: Duration where
  "Millisecond = 1000000"

definition Second :: Duration where
  "Second = 1000000000"

text \<open>
  Go's \<open>/\<close> on \<open>int64\<close> truncates towards zero (\<open>sdiv\<close> on the signed readings) and
  wraps in the one overflowing case. Every divisor in the code below is a non-zero
  constant or guarded by a test, so the panic of a zero divisor is never reached.
\<close>

definition div64 :: "int64 \<Rightarrow> int64 \<Rightarrow> int64" where
  "div64 a b = word_of_int (sint a sdiv sint b)"

text \<open>\<open>func (d Duration) Milliseconds() int64 { return int64(d) / 1e6 }\<close>\<close>

definition Milliseconds :: "Duration \<Rightarrow> int64" where
  "Milliseconds d = div64 d 1000000"

text \<open>\<open>func (t Time) Add(d Duration) Time\<close> and \<open>func (t Time) Before(u Time) bool\<close>\<close>

definition Add :: "Time \<Rightarrow> Duration \<Rightarrow> Time" where
  "Add t d = t + sint d"

definition Before :: "Time \<Rightarrow> Time \<Rightarrow> bool" where
  "Before t u = (t < u)"

text \<open>
  A \<open>float64\<close> is one of the IEEE special values that the divisions of this package can
  produce, or a finite value. Finite values are carried as exact rationals: the rounding
  of each IEEE operation to the nearest double is not represented. The values this
  development relies on (zero, and the whole numbers of milliseconds produced from an
  \<open>int64\<close> below \<open>2^53\<close>) are doubles, so for them the representation is exact.
\<close>

datatype float64 = Finite rat | PosInf | NegInf | NaN

definition float64_of_int64 :: "int64 \<Rightarrow> float64" where
  "float64_of_int64 w = Finite (of_int (sint w))"

text \<open>The comparison \<open>x < c\<close> of a \<open>float64\<close> with a finite constant; false on NaN.\<close>

fun flt :: "float64 \<Rightarrow> rat \<Rightarrow> bool" where
  "flt (Finite x) c = (x < c)"
| "flt NegInf c = True"
| "flt PosInf c = False"
| "flt NaN c = False"

text \<open>\<open>fmt.Errorf\<close> with a plain message, and with \<open>%w\<close> wrapping a cause.\<close>

datatype error = Errorf string | Wrapf string error

record QualityResult =
  UplinkCapacity :: float64
  DownlinkCapacity :: float64
  IdleLatency :: float64
  Responsiveness :: string
  ResponsivenessMs :: float64

record TestConfig =
  TestDuration :: Duration
  TestServers :: "string list"
  UploadServers :: "string list"
  UploadChunkSize :: int
  NumConnections :: int

definition DefaultConfig :: TestConfig where
  "DefaultConfig =
     \<lparr> TestDuration = 10 * Second,
       TestServers = [''https://speed.cloudflare.com/__down?bytes=10000000'',
                      ''https://www.google.com/generate_204''],
       UploadServers = [''https://httpbin.org/post'',
                        ''https://speed.cloudflare.com/__up?bytes=10000000''],
       UploadChunkSize = 512 * 1024,
       NumConnections = 4 \<rparr>"

section \<open>Observable effects\<close>

text \<open>
  The requests handed to the HTTP client and the calls of \<open>time.Sleep\<close>, in the order
  one goroutine performs them.
\<close>

datatype event = Get string | Post string int | Sleep Duration

section \<open>measureIdleLatency\<close>

text \<open>
  What the network answers to one iteration of the sampling loop:
  \<open>http.NewRequestWithContext\<close> fails, \<open>client.Do\<close> fails, or a response arrives and
  \<open>time.Since(start)\<close> reads the given duration.
\<close>

datatype probe = NewRequestErr | DoErr | Responded Duration

record sampler =
  totalLatency :: Duration
  successCount :: nat
  trace :: "event list"

definition numTests :: nat where
  "numTests = 10"

text \<open>
  One iteration of the \<open>for\<close> loop. Both \<open>continue\<close> statements leave the iteration
  before \<open>time.Sleep\<close>; a request that could not be built is never sent.
\<close>

fun sample :: "string \<Rightarrow> probe \<Rightarrow> sampler \<Rightarrow> sampler" where
  "sample testURL NewRequestErr s = s"
| "sample testURL DoErr s = s\<lparr>trace := trace s @ [Get testURL]\<rparr>"
| "sample testURL (Responded latency) s =
     s\<lparr>totalLatency := totalLatency s + latency,
       successCount := Suc (successCount s),
       trace := trace s @ [Get testURL, Sleep (100 * Millisecond)]\<rparr>"

definition sampling :: "string \<Rightarrow> probe list \<Rightarrow> sampler" where
  "sampling testURL ps =
     fold (sample testURL) ps \<lparr>totalLatency = 0, successCount = 0, trace = []\<rparr>"

text \<open>
  \<open>measureIdleLatency ctx testURL\<close>; \<open>net i\<close> is what the network answers to the
  request of iteration \<open>i\<close>. The result is the trace and the pair of return values:
  a Go function returning \<open>(float64, error)\<close> returns both, and a caller may read the
  number and drop the error (\<open>None\<close> is \<open>nil\<close>).
\<close>

definition measureIdleLatency :: "string \<Rightarrow> (nat \<Rightarrow> probe) \<Rightarrow> event list \<times> float64 \<times> error option" where
  "measureIdleLatency testURL net =
     (let s = sampling testURL (map net [0..<numTests])
      in if successCount s = 0
         then (trace s, Finite 0, Some (Errorf ''all latency tests failed''))
         else let avgLatency = div64 (totalLatency s) (of_nat (successCount s))
              in (trace s, float64_of_int64 (Milliseconds avgLatency), None))"

section \<open>Transfer workers\<close>

text \<open>
  What one pass through a worker's loop observes: the clock read by
  \<open>time.Now().Before(deadline)\<close>, whether \<open>ctx.Done()\<close> is closed, and what the
  network does with the request: it cannot be built, \<open>client.Do\<close> fails, or a response
  with a status code arrives whose body \<open>io.Copy\<close> reads to the given number of bytes.
\<close>

datatype attempt = NewRequestFails | DoFails | Answers int int64

record tick =
  now :: Time
  ctxDone :: bool
  answer :: attempt

text \<open>
  A worker is run against the list of its passes. The loop has no bound of its own: it
  ends at the first pass that reads the clock at or after the deadline, or finds the
  context cancelled. A list that ends before such a pass does not describe a finished
  worker, and the result is \<open>None\<close>.

  Each worker returns its trace and the sum of what it added to \<open>totalBytes\<close>. The
  additions of all workers happen under one mutex and \<open>+\<close> on \<open>int64\<close> is associative
  and commutative, so the shared counter ends as the sum of these contributions.
\<close>

fun downloadWorker :: "Time \<Rightarrow> string \<Rightarrow> tick list \<Rightarrow> (event list \<times> int64) option" where
  "downloadWorker deadline downloadURL [] = None"
| "downloadWorker deadline downloadURL (t # ts) =
     (if \<not> Before (now t) deadline then Some ([], 0)
      else if ctxDone t then Some ([], 0)
      else case answer t of
          NewRequestFails \<Rightarrow> downloadWorker deadline downloadURL ts
        | DoFails \<Rightarrow>
            map_option (\<lambda>(tr, n). (Get downloadURL # tr, n))
              (downloadWorker deadline downloadURL ts)
        | Answers status bytes \<Rightarrow>
            map_option (\<lambda>(tr, n). (Get downloadURL # tr, bytes + n))
              (downloadWorker deadline downloadURL ts))"

definition statusOK :: "int \<Rightarrow> bool" where
  "statusOK StatusCode = (StatusCode \<ge> 200 \<and> StatusCode < 400)"

fun uploadWorker :: "Time \<Rightarrow> string \<Rightarrow> int \<Rightarrow> tick list \<Rightarrow> (event list \<times> int64) option" where
  "uploadWorker deadline target chunkSize [] = None"
| "uploadWorker deadline target chunkSize (t # ts) =
     (if \<not> Before (now t) deadline then Some ([], 0)
      else if ctxDone t then Some ([], 0)
      else case answer t of
          NewRequestFails \<Rightarrow> uploadWorker deadline target chunkSize ts
        | DoFails \<Rightarrow>
            map_option (\<lambda>(tr, n). (Post target chunkSize # tr, n))
              (uploadWorker deadline target chunkSize ts)
        | Answers status bytes \<Rightarrow>
            if \<not> statusOK status
            then map_option (\<lambda>(tr, n). (Post target chunkSize # tr, n))
                   (uploadWorker deadline target chunkSize ts)
            else map_option (\<lambda>(tr, n). (Post target chunkSize # tr, word_of_int chunkSize + n))
                   (uploadWorker deadline target chunkSize ts))"

section \<open>Bitrate\<close>

text \<open>
  \<open>a / b\<close> on finite doubles: a zero divisor gives NaN or an infinity, where HOL's
  division would give 0.
\<close>

definition fdiv :: "rat \<Rightarrow> rat \<Rightarrow> float64" where
  "fdiv a b =
     (if b \<noteq> 0 then Finite (a / b)
      else if a = 0 then NaN else if 0 < a then PosInf else NegInf)"

text \<open>\<open>math.Round\<close>: to the nearest integer, halves away from zero.\<close>

definition Round :: "rat \<Rightarrow> rat" where
  "Round x = sgn x * of_int \<lfloor>\<bar>x\<bar> + 1 / 2\<rfloor>"

text \<open>\<open>math.Round(mbps*1000) / 1000\<close>; NaN and the infinities pass through.\<close>

fun round3 :: "float64 \<Rightarrow> float64" where
  "round3 (Finite mbps) = Finite (Round (mbps * 1000) / 1000)"
| "round3 PosInf = PosInf"
| "round3 NegInf = NegInf"
| "round3 NaN = NaN"

text \<open>\<open>func (d Duration) Seconds() float64\<close>\<close>

definition Seconds :: "Duration \<Rightarrow> rat" where
  "Seconds d = of_int (sint d) / 1000000000"

text \<open>
  The last lines of both phases: \<open>duration := time.Since(startTime).Seconds()\<close>,
  \<open>mbps := (float64(totalBytes) * 8) / (duration * 1000000)\<close>, and the rounding.
\<close>

definition Mbps :: "int64 \<Rightarrow> Duration \<Rightarrow> float64" where
  "Mbps totalBytes elapsed =
     (let duration = Seconds elapsed;
          mbps = fdiv (of_int (sint totalBytes) * 8) (duration * 1000000)
      in round3 mbps)"

section \<open>The two throughput phases\<close>

text \<open>
  What a phase observes besides its workers' passes: \<open>time.Now()\<close> at its start and
  \<open>time.Since(startTime)\<close> once \<open>wg.Wait()\<close> has returned. \<open>passes i\<close> are the passes
  of the worker started by iteration \<open>i\<close> of the launching loop.
\<close>

record phase =
  startTime :: Time
  passes :: "nat \<Rightarrow> tick list"
  elapsed :: Duration

text \<open>
  The traces of a finished stage, one per goroutine: the order of events between
  goroutines is left to the scheduler and is not recorded.
\<close>

datatype stage =
    IdleLatencyStage "event list"
  | DownloadStage "event list list" "event list"
  | UploadStage "event list list"

text \<open>
  The workers of the download phase: \<open>deadline := startTime.Add(config.TestDuration)\<close>,
  the loop that starts \<open>config.NumConnections\<close> goroutines, and \<open>wg.Wait()\<close>, which
  returns once every worker has returned.
\<close>

definition downloadWorkers ::
  "TestConfig \<Rightarrow> string \<Rightarrow> phase \<Rightarrow> (event list \<times> int64) list option" where
  "downloadWorkers config downloadURL ph =
     (let deadline = Add (startTime ph) (TestDuration config)
      in those (map (\<lambda>i. downloadWorker deadline downloadURL (passes ph i))
                  [0..<nat (NumConnections config)]))"

text \<open>
  \<open>measureDownloadSpeed\<close>. The sampling goroutine sleeps two seconds, samples
  \<open>latencyURL\<close> against the answers \<open>loaded\<close> and sends the number it got, dropping the
  error. The error returned by the function itself is always \<open>nil\<close>.
\<close>

definition measureDownloadSpeed ::
  "TestConfig \<Rightarrow> string \<Rightarrow> string \<Rightarrow> phase \<Rightarrow> (nat \<Rightarrow> probe) \<Rightarrow>
     (stage \<times> float64 \<times> float64 \<times> error option) option" where
  "measureDownloadSpeed config downloadURL latencyURL ph loaded =
     (let (ltrace, latency, _) = measureIdleLatency latencyURL loaded
      in case downloadWorkers config downloadURL ph of
           None \<Rightarrow> None
         | Some rs \<Rightarrow>
             let totalBytes = sum_list (map snd rs);
                 loadedLatency = latency
             in Some (DownloadStage (map fst rs) (Sleep (2 * Second) # ltrace),
                      Mbps totalBytes (elapsed ph), loadedLatency, None))"

text \<open>
  The workers of the upload phase: the chunk size with its default, the deadline half
  the test duration after the start, the loop that starts the goroutines, each with
  the server \<open>config.UploadServers[i%len(config.UploadServers)]\<close>, and \<open>wg.Wait()\<close>.
  It is reached only with a non-empty list of servers.
\<close>

definition uploadWorkers :: "TestConfig \<Rightarrow> phase \<Rightarrow> (event list \<times> int64) list option" where
  "uploadWorkers config ph =
     (let chunkSize = (if UploadChunkSize config \<le> 0 then 512 * 1024
                       else UploadChunkSize config);
          deadline = Add (startTime ph) (div64 (TestDuration config) 2)
      in those (map (\<lambda>i. uploadWorker deadline
                            (UploadServers config ! (i mod length (UploadServers config)))
                            chunkSize (passes ph i))
                  [0..<nat (NumConnections config)]))"

text \<open>\<open>measureUploadSpeed\<close>\<close>

definition measureUploadSpeed ::
  "TestConfig \<Rightarrow> phase \<Rightarrow> (stage \<times> float64 \<times> error option) option" where
  "measureUploadSpeed config ph =
     (if length (UploadServers config) = 0
      then Some (UploadStage [], Finite 0, Some (Errorf ''no upload servers configured''))
      else
        case uploadWorkers config ph of
          None \<Rightarrow> None
        | Some rs \<Rightarrow>
            let totalBytes = sum_list (map snd rs)
            in if elapsed ph = 0
               then Some (UploadStage (map fst rs), Finite 0,
                          Some (Errorf ''upload duration was zero''))
               else Some (UploadStage (map fst rs), Mbps totalBytes (elapsed ph), None))"

section \<open>RunQualityTest\<close>

text \<open>Everything one run observes of the network and the clock.\<close>

record network =
  idle :: "nat \<Rightarrow> probe"
  download :: phase
  loaded :: "nat \<Rightarrow> probe"
  upload :: phase

text \<open>The \<open>if\<close> chain that fills in \<open>result.Responsiveness\<close>.\<close>

definition responsiveness :: "float64 \<Rightarrow> string" where
  "responsiveness loadedLatency =
     (if flt loadedLatency 200 then ''High''
      else if flt loadedLatency 1000 then ''Medium''
      else ''Low'')"

text \<open>
  \<open>RunQualityTest ctx config\<close>; a \<open>nil\<close> pointer is \<open>None\<close>. The result is the stages
  that were entered, in order, and the pair \<open>(nil, err)\<close> as \<open>Inl err\<close> or
  \<open>(result, nil)\<close> as \<open>Inr result\<close>.
\<close>

definition RunQualityTest ::
  "network \<Rightarrow> TestConfig option \<Rightarrow> (stage list \<times> (error + QualityResult)) option" where
  "RunQualityTest net cfg =
     (let config = (case cfg of None \<Rightarrow> DefaultConfig | Some c \<Rightarrow> c)
      in if sint (TestDuration config) \<le> 0
         then Some ([], Inl (Errorf ''test duration must be positive''))
         else if length (TestServers config) = 0
         then Some ([], Inl (Errorf ''no download test servers configured''))
         else
           let downloadURL = TestServers config ! 0;
               latencyURL = (if length (TestServers config) > 1
                             then TestServers config ! 1 else downloadURL);
               (itrace, idleLatency, err) = measureIdleLatency latencyURL (idle net)
           in case err of
                Some e \<Rightarrow>
                  Some ([IdleLatencyStage itrace],
                        Inl (Wrapf ''failed to measure idle latency'' e))
              | None \<Rightarrow>
                 (case measureDownloadSpeed config downloadURL latencyURL
                         (download net) (loaded net) of
                    None \<Rightarrow> None
                  | Some (dstage, downloadMbps, loadedLatency, err) \<Rightarrow>
                     (case err of
                        Some e \<Rightarrow>
                          Some ([IdleLatencyStage itrace, dstage],
                                Inl (Wrapf ''failed to measure download speed'' e))
                      | None \<Rightarrow>
                         (case measureUploadSpeed config (upload net) of
                            None \<Rightarrow> None
                          | Some (ustage, uploadMbps, err) \<Rightarrow>
                             (case err of
                                Some e \<Rightarrow>
                                  Some ([IdleLatencyStage itrace, dstage, ustage],
                                        Inl (Wrapf ''failed to measure upload speed'' e))
                              | None \<Rightarrow>
                                  Some ([IdleLatencyStage itrace, dstage, ustage],
                                        Inr \<lparr> UplinkCapacity = uploadMbps,
                                              DownlinkCapacity = downloadMbps,
                                              IdleLatency = idleLatency,
                                              Responsiveness = responsiveness loadedLatency,
                                              ResponsivenessMs = loadedLatency \<rparr>))))))"

section \<open>Sample observations\<close>

text \<open>
  A phase in which no worker gets a response: each worker's request fails until the
  clock has passed the phase's deadline.
\<close>

definition quiet_pass :: "Time \<Rightarrow> tick" where
  "quiet_pass t = \<lparr>now = t, ctxDone = False, answer = DoFails\<rparr>"

definition quiet_phase :: "Time \<Rightarrow> Duration \<Rightarrow> phase" where
  "quiet_phase t d =
     \<lparr> startTime = t,
       passes = (\<lambda>i. [quiet_pass t, quiet_pass (t + sint d)]),
       elapsed = d + 100 \<rparr>"

definition steady_network :: network where
  "steady_network =
     \<lparr> idle = (\<lambda>i. Responded (20 * Millisecond)),
       download = quiet_phase 0 (10 * Second),
       loaded = (\<lambda>i. Responded (250 * Millisecond)),
       upload = quiet_phase 10000000000 (5 * Second) \<rparr>"

definition steady_result :: QualityResult where
  "steady_result =
     \<lparr> UplinkCapacity = Finite 0, DownlinkCapacity = Finite 0, IdleLatency = Finite 20,
       Responsiveness = ''Medium'', ResponsivenessMs = Finite 250 \<rparr>"


text \<open>The elapsed times of the requests that got a response, in order.\<close>

fun latencies :: "probe list \<Rightarrow> Duration list" where
  "latencies [] = []"
| "latencies (Responded d # ps) = d # latencies ps"
| "latencies (p # ps) = latencies ps"

definition patchy_probes :: "nat \<Rightarrow> probe" where
  "patchy_probes i = (if i = 3 then DoErr else if i = 7 then NewRequestErr
                      else Responded (20500000 + of_nat i))"

definition silent_probes :: "nat \<Rightarrow> probe" where
  "silent_probes i = DoErr"

definition lone_probe :: "nat \<Rightarrow> probe" where
  "lone_probe i = (if i = 4 then Responded 1900000 else DoErr)"

text \<open>The first request fails in \<open>client.Do\<close>; every later one gets a response.\<close>

definition first_fails :: "nat \<Rightarrow> probe" where
  "first_fails i = (if i = 0 then DoErr else Responded (20 * Millisecond))"

text \<open>The steady network, with no answer to any of the probes sent under load.\<close>

definition unanswered_under_load :: network where
  "unanswered_under_load = steady_network\<lparr>loaded := silent_probes\<rparr>"


section \<open>Reading a worker's passes\<close>

text \<open>A pass that finds the clock before the deadline and the context not cancelled.\<close>

definition live :: "Time \<Rightarrow> tick \<Rightarrow> bool" where
  "live deadline t = (Before (now t) deadline \<and> \<not> ctxDone t)"

text \<open>A pass whose request was built, and so handed to the client.\<close>

definition sent :: "tick \<Rightarrow> bool" where
  "sent t = (answer t \<noteq> NewRequestFails)"

text \<open>A pass that got a response with a status code from 200 and below 400.\<close>

definition accepted :: "tick \<Rightarrow> bool" where
  "accepted t = (case answer t of Answers status bytes \<Rightarrow> 200 \<le> status \<and> status < 400
                 | _ \<Rightarrow> False)"

text \<open>
  Six passes of an upload worker with the deadline 100: statuses 200, 500, a transport
  error, 302, a request that cannot be built, and the pass that finds the deadline gone.
\<close>

definition mixed_passes :: "tick list" where
  "mixed_passes =
     [\<lparr>now = 10, ctxDone = False, answer = Answers 200 0\<rparr>,
      \<lparr>now = 20, ctxDone = False, answer = Answers 500 0\<rparr>,
      \<lparr>now = 30, ctxDone = False, answer = DoFails\<rparr>,
      \<lparr>now = 40, ctxDone = False, answer = Answers 302 0\<rparr>,
      \<lparr>now = 50, ctxDone = False, answer = NewRequestFails\<rparr>,
      \<lparr>now = 100, ctxDone = False, answer = Answers 200 0\<rparr>]"

text \<open>
  A phase whose context is already cancelled when the workers start, on a clock that has
  not advanced when the phase ends: no worker sends a request, and
  \<open>time.Since(startTime)\<close> reads zero.
\<close>

definition cancelled_pass :: tick where
  "cancelled_pass = \<lparr>now = 0, ctxDone = True, answer = DoFails\<rparr>"

definition cancelled_phase :: phase where
  "cancelled_phase = \<lparr>startTime = 0, passes = (\<lambda>i. [cancelled_pass]), elapsed = 0\<rparr>"

text \<open>The stages of the steady network's run on the default configuration.\<close>

definition steady_stages :: "stage list" where
  "steady_stages =
     [IdleLatencyStage
        (concat (replicate 10 [Get ''https://www.google.com/generate_204'',
                               Sleep (100 * Millisecond)])),
      DownloadStage
        (replicate 4 [Get ''https://speed.cloudflare.com/__down?bytes=10000000''])
        (Sleep (2 * Second) #
         concat (replicate 10 [Get ''https://www.google.com/generate_204'',
                               Sleep (100 * Millisecond)])),
      UploadStage
        [[Post ''https://httpbin.org/post'' (512 * 1024)],
         [Post ''https://speed.cloudflare.com/__up?bytes=10000000'' (512 * 1024)],
         [Post ''https://httpbin.org/post'' (512 * 1024)],
         [Post ''https://speed.cloudflare.com/__up?bytes=10000000'' (512 * 1024)]]]"

text \<open>
  An upload phase of five seconds in which every worker goes through the mixed passes,
  all before the deadline, and then finds the deadline gone.
\<close>

definition busy_upload :: phase where
  "busy_upload =
     \<lparr>startTime = 0,
      passes = (\<lambda>i. mixed_passes @ [quiet_pass 5000000000]),
      elapsed = 5000000100\<rparr>"

text \<open>Only the fifth request gets a response, after 1.999999 ms.\<close>

definition nearly_two_ms :: "nat \<Rightarrow> probe" where
  "nearly_two_ms i = (if i = 4 then Responded 1999999 else DoErr)"

section \<open>Properties of RunQualityTest\<close>

lemma float64_of_int64_whole: "\<exists>ms::int. float64_of_int64 w = Finite (of_int ms)"
  unfolding float64_of_int64_def by blast

lemma measureIdleLatency_whole:
  "\<exists>ms::int. fst (snd (measureIdleLatency testURL net)) = Finite (of_int ms)"
proof (cases "successCount (sampling testURL (map net [0..<numTests])) = 0")
  case True
  then have "fst (snd (measureIdleLatency testURL net)) = Finite (of_int 0)"
    by (simp add: measureIdleLatency_def Let_def)
  then show ?thesis by blast
next
  case False
  then show ?thesis
    using float64_of_int64_whole by (simp add: measureIdleLatency_def Let_def)
qed

lemma RunQualityTest_result:
  assumes "RunQualityTest net cfg = Some (stages, Inr r)"
  shows "Responsiveness r = responsiveness (ResponsivenessMs r)"
    and "\<exists>testURL. ResponsivenessMs r = fst (snd (measureIdleLatency testURL (loaded net)))"
  using assms
  by (auto simp: RunQualityTest_def measureDownloadSpeed_def Let_def
           split: option.splits if_splits prod.splits)
     (metis fst_conv snd_conv)+

text \<open>
  C1. In every run that returns a result, \<open>ResponsivenessMs\<close> is a whole number \<open>ms\<close>
  of milliseconds and \<open>Responsiveness\<close> is read off it alone: \<open>High\<close> below 200,
  \<open>Medium\<close> from 200 and below 1000, \<open>Low\<close> from 1000. The classification gives
  \<open>High\<close> at 199, \<open>Medium\<close> at 200 and 999, \<open>Low\<close> at 1000.
\<close>

theorem responsiveness_label:
  "(RunQualityTest net cfg = Some (stages, Inr r) \<longrightarrow>
      (\<exists>ms::int. ResponsivenessMs r = Finite (of_int ms) \<and>
         Responsiveness r = (if ms < 200 then ''High''
                             else if ms < 1000 then ''Medium'' else ''Low''))) \<and>
   responsiveness (Finite 199) = ''High'' \<and>
   responsiveness (Finite 200) = ''Medium'' \<and>
   responsiveness (Finite 999) = ''Medium'' \<and>
   responsiveness (Finite 1000) = ''Low''"
proof -
  have "\<exists>ms::int. ResponsivenessMs r = Finite (of_int ms) \<and>
         Responsiveness r = (if ms < 200 then ''High''
                             else if ms < 1000 then ''Medium'' else ''Low'')"
    if run: "RunQualityTest net cfg = Some (stages, Inr r)"
  proof -
    obtain ms :: int where ms: "ResponsivenessMs r = Finite (of_int ms)"
      using RunQualityTest_result(2) [OF run] measureIdleLatency_whole by metis
    have "Responsiveness r = responsiveness (Finite (of_int ms))"
      using RunQualityTest_result(1) [OF run] ms by simp
    then show ?thesis
      using ms by (auto simp: responsiveness_def)
  qed
  then show ?thesis
    by (simp add: responsiveness_def)
qed

lemma steady_run:
  "map_option snd (RunQualityTest steady_network None) = Some (Inr steady_result)"
  by code_simp

theorem responsiveness_label_witness:
  "\<exists>stages r. RunQualityTest steady_network None = Some (stages, Inr r) \<and>
     ResponsivenessMs r = Finite 250 \<and> Responsiveness r = ''Medium''"
proof -
  obtain stages where run: "RunQualityTest steady_network None = Some (stages, Inr steady_result)"
    using steady_run by auto
  have ms: "ResponsivenessMs steady_result = Finite 250"
    by (simp add: steady_result_def)
  from responsiveness_label [of steady_network None stages steady_result] run
  obtain ms :: int where "Finite 250 = Finite (of_int ms)"
    and "Responsiveness steady_result =
           (if ms < 200 then ''High'' else if ms < 1000 then ''Medium'' else ''Low'')"
    using ms by auto
  then have "Responsiveness steady_result = ''Medium''"
    by auto
  with run ms show ?thesis by blast
qed

text \<open>
  C3. A configuration whose duration is not positive, or whose list of download servers
  is empty, makes the run return the plain configuration error at once: no stage is
  entered, so no request is sent and no sleep is made.
\<close>

theorem configuration_error_before_io:
  "sint (TestDuration c) \<le> 0 \<or> TestServers c = [] \<Longrightarrow>
     RunQualityTest net (Some c) =
       Some ([], Inl (Errorf (if sint (TestDuration c) \<le> 0
                              then ''test duration must be positive''
                              else ''no download test servers configured'')))"
  by (auto simp: RunQualityTest_def)

theorem configuration_error_before_io_witness:
  "sint (TestDuration (DefaultConfig\<lparr>TestDuration := 0\<rparr>)) \<le> 0 \<and>
   TestServers (DefaultConfig\<lparr>TestServers := []\<rparr>) = [] \<and>
   RunQualityTest steady_network (Some (DefaultConfig\<lparr>TestDuration := 0\<rparr>)) =
     Some ([], Inl (Errorf ''test duration must be positive'')) \<and>
   RunQualityTest steady_network (Some (DefaultConfig\<lparr>TestServers := []\<rparr>)) =
     Some ([], Inl (Errorf ''no download test servers configured''))"
  using configuration_error_before_io [of "DefaultConfig\<lparr>TestDuration := 0\<rparr>" steady_network]
    configuration_error_before_io [of "DefaultConfig\<lparr>TestServers := []\<rparr>" steady_network]
  by (simp add: DefaultConfig_def Second_def)

text \<open>
  C9. A \<open>nil\<close> configuration is replaced by \<open>DefaultConfig()\<close>: the run is the run on
  that configuration, whose fields are ten seconds, four connections, the two built-in
  lists of servers and chunks of 512 KB. It passes both checks of the configuration and
  never returns before the idle stage: it samples the idle latency at the second
  built-in download server, then runs the download and the upload phase of the default
  configuration, and returns what these stages give.
\<close>

theorem nil_config_is_default:
  "RunQualityTest net None = RunQualityTest net (Some DefaultConfig) \<and>
   sint (TestDuration DefaultConfig) = 10 * 1000000000 \<and>
   NumConnections DefaultConfig = 4 \<and>
   TestServers DefaultConfig =
     [''https://speed.cloudflare.com/__down?bytes=10000000'',
      ''https://www.google.com/generate_204''] \<and>
   UploadServers DefaultConfig =
     [''https://httpbin.org/post'', ''https://speed.cloudflare.com/__up?bytes=10000000''] \<and>
   UploadChunkSize DefaultConfig = 512 * 1024 \<and>
   RunQualityTest net None \<noteq> Some ([], Inl (Errorf ''test duration must be positive'')) \<and>
   RunQualityTest net None \<noteq> Some ([], Inl (Errorf ''no download test servers configured'')) \<and>
   (\<forall>x. RunQualityTest net None \<noteq> Some ([], x)) \<and>
   RunQualityTest net None =
     (case measureIdleLatency ''https://www.google.com/generate_204'' (idle net) of
        (itrace, idleLatency, Some e) \<Rightarrow>
          Some ([IdleLatencyStage itrace], Inl (Wrapf ''failed to measure idle latency'' e))
      | (itrace, idleLatency, None) \<Rightarrow>
         (case measureDownloadSpeed DefaultConfig
                 ''https://speed.cloudflare.com/__down?bytes=10000000''
                 ''https://www.google.com/generate_204'' (download net) (loaded net) of
            None \<Rightarrow> None
          | Some (dstage, downloadMbps, loadedLatency, derr) \<Rightarrow>
             (case measureUploadSpeed DefaultConfig (upload net) of
                None \<Rightarrow> None
              | Some (ustage, uploadMbps, Some e) \<Rightarrow>
                  Some ([IdleLatencyStage itrace, dstage, ustage],
                        Inl (Wrapf ''failed to measure upload speed'' e))
              | Some (ustage, uploadMbps, None) \<Rightarrow>
                  Some ([IdleLatencyStage itrace, dstage, ustage],
                        Inr \<lparr> UplinkCapacity = uploadMbps,
                              DownlinkCapacity = downloadMbps,
                              IdleLatency = idleLatency,
                              Responsiveness = responsiveness loadedLatency,
                              ResponsivenessMs = loadedLatency \<rparr>))))"
proof -
  have a: "RunQualityTest net None = RunQualityTest net (Some DefaultConfig)"
    by (simp add: RunQualityTest_def)
  have d: "sint (TestDuration DefaultConfig) = 10 * 1000000000"
    by (simp add: DefaultConfig_def Second_def)
  have s: "TestServers DefaultConfig =
     [''https://speed.cloudflare.com/__down?bytes=10000000'',
      ''https://www.google.com/generate_204'']"
    by (simp add: DefaultConfig_def)
  have "sint (TestDuration DefaultConfig) \<le> 0 \<or> TestServers DefaultConfig = []"
    if "RunQualityTest net None = Some ([], x)" for x
    using that
    by (auto simp: RunQualityTest_def Let_def split: option.splits prod.splits if_splits)
  then have n: "RunQualityTest net None \<noteq> Some ([], x)" for x
    using d by (auto simp: DefaultConfig_def)
  have derr: "err = None" if "measureDownloadSpeed c u l ph ld = Some (st, mbps, lat, err)"
    for c u l ph ld st mbps lat err
    using that
    by (auto simp: measureDownloadSpeed_def Let_def split: option.splits prod.splits)
  have e: "RunQualityTest net None =
     (case measureIdleLatency ''https://www.google.com/generate_204'' (idle net) of
        (itrace, idleLatency, Some e) \<Rightarrow>
          Some ([IdleLatencyStage itrace], Inl (Wrapf ''failed to measure idle latency'' e))
      | (itrace, idleLatency, None) \<Rightarrow>
         (case measureDownloadSpeed DefaultConfig
                 ''https://speed.cloudflare.com/__down?bytes=10000000''
                 ''https://www.google.com/generate_204'' (download net) (loaded net) of
            None \<Rightarrow> None
          | Some (dstage, downloadMbps, loadedLatency, derr) \<Rightarrow>
             (case measureUploadSpeed DefaultConfig (upload net) of
                None \<Rightarrow> None
              | Some (ustage, uploadMbps, Some e) \<Rightarrow>
                  Some ([IdleLatencyStage itrace, dstage, ustage],
                        Inl (Wrapf ''failed to measure upload speed'' e))
              | Some (ustage, uploadMbps, None) \<Rightarrow>
                  Some ([IdleLatencyStage itrace, dstage, ustage],
                        Inr \<lparr> UplinkCapacity = uploadMbps,
                              DownlinkCapacity = downloadMbps,
                              IdleLatency = idleLatency,
                              Responsiveness = responsiveness loadedLatency,
                              ResponsivenessMs = loadedLatency \<rparr>))))"
    unfolding RunQualityTest_def
    by (auto simp: d s Let_def dest: derr split: option.splits prod.splits)
  from a d n e show ?thesis
    by (simp add: DefaultConfig_def)
qed

theorem nil_config_is_default_witness:
  "RunQualityTest steady_network None = Some (steady_stages, Inr steady_result) \<and>
   RunQualityTest steady_network (Some DefaultConfig) = Some (steady_stages, Inr steady_result)"
proof -
  have run: "RunQualityTest steady_network None = Some (steady_stages, Inr steady_result)"
    by code_simp
  from nil_config_is_default [of steady_network] run show ?thesis
    by simp
qed

section \<open>The latency sampler\<close>

lemma successCount_fold:
  "successCount (fold (sample u) ps s) = successCount s + length (latencies ps)"
  by (induction ps arbitrary: s rule: latencies.induct) simp_all

lemma totalLatency_fold:
  "totalLatency (fold (sample u) ps s) = totalLatency s + sum_list (latencies ps)"
  by (induction ps arbitrary: s rule: latencies.induct) (simp_all add: add.assoc)

lemma successCount_sampling: "successCount (sampling u ps) = length (latencies ps)"
  by (simp add: sampling_def successCount_fold)

lemma totalLatency_sampling: "totalLatency (sampling u ps) = sum_list (latencies ps)"
  by (simp add: sampling_def totalLatency_fold)

lemma length_latencies: "length (latencies ps) \<le> length ps"
  by (induction ps rule: latencies.induct) simp_all

lemma sint_int64_of_int:
  "- (2 ^ 63) \<le> k \<Longrightarrow> k < 2 ^ 63 \<Longrightarrow> sint (word_of_int k :: int64) = k"
  by (simp add: sint_sbintrunc' signed_take_bit_int_eq_self)

lemma sint_sum_list:
  "\<forall>d\<in>set ds. 0 \<le> sint d \<Longrightarrow> sum_list (map sint ds) < 2 ^ 63 \<Longrightarrow>
     sint (sum_list ds :: int64) = sum_list (map sint ds)"
proof (induction ds)
  case Nil
  then show ?case by simp
next
  case (Cons d ds)
  have nonneg: "0 \<le> sum_list (map sint ds)"
    using Cons.prems(1) by (intro sum_list_nonneg) auto
  have "0 \<le> sint d"
    using Cons.prems(1) by simp
  then have "sum_list (map sint ds) < 2 ^ 63"
    using Cons.prems(2) by simp
  then have ih: "sint (sum_list ds) = sum_list (map sint ds)"
    using Cons.IH Cons.prems(1) by simp
  have "sint (d + sum_list ds) = signed_take_bit 63 (sint d + sint (sum_list ds))"
    by (simp add: sint_word_add)
  also have "\<dots> = sint d + sum_list (map sint ds)"
    using Cons.prems(2) nonneg \<open>0 \<le> sint d\<close>
    by (simp add: ih signed_take_bit_int_eq_self)
  finally show ?case by simp
qed

lemma sint_div64_nonneg:
  assumes "0 \<le> sint a" "0 < sint b"
  shows "sint (div64 a b) = sint a div sint b"
proof -
  have eq: "sint a sdiv sint b = sint a div sint b"
    using assms by (simp add: signed_divide_int_def sgn_if)
  have "sint a div sint b \<le> sint a"
  proof (cases "sint a = 0")
    case True
    then show ?thesis by simp
  next
    case False
    then show ?thesis
      using assms by (intro int_div_le_self) simp
  qed
  moreover have "sint a < 2 ^ 63"
    using sint_lt [of a] by simp
  moreover have "0 \<le> sint a div sint b"
    using assms by (simp add: pos_imp_zdiv_nonneg_iff)
  ultimately show ?thesis
    unfolding div64_def eq by (intro sint_int64_of_int) simp_all
qed

lemma sint_count: "n \<le> 10 \<Longrightarrow> sint (of_nat n :: int64) = int n"
proof -
  assume "n \<le> 10"
  then have "int n < 2 ^ 63" by simp
  then show ?thesis
    using sint_int64_of_int [of "int n"] by simp
qed


lemma measureIdleLatency_outcome:
  "snd (measureIdleLatency u net) =
     (let ds = latencies (map net [0..<numTests])
      in if ds = [] then (Finite 0, Some (Errorf ''all latency tests failed''))
         else (float64_of_int64 (Milliseconds (div64 (sum_list ds) (of_nat (length ds)))), None))"
  by (simp add: measureIdleLatency_def Let_def successCount_sampling totalLatency_sampling)

lemma mean_milliseconds:
  fixes ds :: "Duration list"
  assumes nonneg: "\<forall>d\<in>set ds. 0 \<le> sint d"
    and fits: "sum_list (map sint ds) < 2 ^ 63"
    and some: "ds \<noteq> []"
    and few: "length ds \<le> 10"
  shows "float64_of_int64 (Milliseconds (div64 (sum_list ds) (of_nat (length ds)))) =
           Finite (of_int \<lfloor>of_int (sum_list (map sint ds)) / (of_nat (length ds) * 1000000 :: rat)\<rfloor>)"
proof -
  let ?S = "sum_list (map sint ds)" and ?n = "int (length ds)"
  have S: "sint (sum_list ds) = ?S"
    using nonneg fits by (rule sint_sum_list)
  have S0: "0 \<le> ?S"
    using nonneg by (intro sum_list_nonneg) auto
  have n: "sint (of_nat (length ds) :: int64) = ?n" "0 < ?n"
    using few some by (simp_all add: sint_count)
  have avg: "sint (div64 (sum_list ds) (of_nat (length ds))) = ?S div ?n"
    using sint_div64_nonneg [of "sum_list ds" "of_nat (length ds)"] S S0 n by simp
  have avg0: "0 \<le> ?S div ?n"
    using S0 n by (simp add: pos_imp_zdiv_nonneg_iff)
  have "sint (Milliseconds (div64 (sum_list ds) (of_nat (length ds)))) = ?S div ?n div 1000000"
    unfolding Milliseconds_def
    using sint_div64_nonneg [of "div64 (sum_list ds) (of_nat (length ds))" 1000000] avg avg0
    by simp
  also have "\<dots> = ?S div (?n * 1000000)"
    using n by (simp add: zdiv_zmult2_eq)
  also have "\<dots> = \<lfloor>of_int ?S / (of_int (?n * 1000000) :: rat)\<rfloor>"
    by (simp only: floor_divide_of_int_eq)
  finally show ?thesis
    by (simp add: float64_of_int64_def del: of_int_sint)
qed


lemma abs_div_le: "\<bar>k\<bar> div \<bar>m\<bar> \<le> \<bar>k\<bar>" for k m :: int
  by (metis abs_0 abs_ge_zero div_by_0 div_by_1 linorder_not_less
    zabs_less_one_iff zdiv_mono2)

lemma abs_sdiv_le: "\<bar>k sdiv m\<bar> \<le> \<bar>k\<bar> div \<bar>m\<bar>" for k m :: int
proof -
  have "0 \<le> \<bar>k\<bar> div \<bar>m\<bar>"
    by (simp add: pos_imp_zdiv_nonneg_iff div_int_pos_iff)
  then show ?thesis
    by (simp add: signed_divide_int_def abs_mult sgn_if)
qed

lemma lone_milliseconds:
  "float64_of_int64 (Milliseconds (div64 d 1)) = Finite (of_int (sint d sdiv 1000000))"
proof -
  have one: "div64 d 1 = d"
    by (simp add: div64_def)
  have "\<bar>sint d\<bar> \<le> 2 ^ 63"
    using sint_ge [of d] sint_lt [of d] by simp
  then have "\<bar>sint d\<bar> div 1000000 \<le> 2 ^ 63 div 1000000"
    by (rule zdiv_mono1) simp
  then have "\<bar>sint d sdiv 1000000\<bar> < 2 ^ 63"
    using abs_sdiv_le [of "sint d" 1000000] by simp
  then have "- (2 ^ 63) \<le> sint d sdiv 1000000" "sint d sdiv 1000000 < 2 ^ 63"
    by simp_all
  then have "sint (Milliseconds d) = sint d sdiv 1000000"
    unfolding Milliseconds_def div64_def by (simp add: sint_int64_of_int)
  then show ?thesis
    by (simp add: one float64_of_int64_def del: of_int_sint)
qed

text \<open>
  C2, as the claim states it, fails: with a single response after 1.999999 ms the
  sampler returns 1, which is neither that sample's value in milliseconds nor that
  value rounded to the nearest whole millisecond, 2. The division by the count and
  \<open>Milliseconds()\<close> are integer divisions of an \<open>int64\<close>, which cut the fraction off.
\<close>

theorem lone_sample_truncated:
  "latencies (map nearly_two_ms [0..<numTests]) = [1999999] \<and>
   snd (measureIdleLatency ''u'' nearly_two_ms) = (Finite 1, None) \<and>
   Finite 1 \<noteq> Finite (1999999 / 1000000) \<and>
   round (1999999 / 1000000 :: rat) = 2"
proof -
  have a: "latencies (map nearly_two_ms [0..<numTests]) = [1999999]"
    by code_simp
  have b: "snd (measureIdleLatency ''u'' nearly_two_ms) = (Finite 1, None)"
    by code_simp
  have "\<lfloor>of_int 2499999 / (of_int 1000000 :: rat)\<rfloor> = 2499999 div 1000000"
    by (rule floor_divide_of_int_eq)
  then have c: "round (1999999 / 1000000 :: rat) = 2"
    by (simp add: round_def)
  from a b c show ?thesis
    by simp
qed

text \<open>
  C2, amended. Let \<open>ds\<close> be the elapsed times of those of the ten requests that got a
  response. The sampler returns the error \<open>all latency tests failed\<close> exactly when
  \<open>ds\<close> is empty, and no error otherwise. When the times are not negative and their sum
  fits an \<open>int64\<close>, the value returned is their arithmetic mean in milliseconds with the
  fraction cut off. With a single response the value is that response's time in
  milliseconds with the fraction cut off.
\<close>

theorem latency_sampler_mean:
  "(let ds = latencies (map net [0..<numTests]);
        (ms, err) = snd (measureIdleLatency testURL net)
    in (err = Some (Errorf ''all latency tests failed'')) = (ds = []) \<and>
       (err = None) = (ds \<noteq> []) \<and>
       (ds \<noteq> [] \<and> (\<forall>d\<in>set ds. 0 \<le> sint d) \<and> sum_list (map sint ds) < 2 ^ 63 \<longrightarrow>
          ms = Finite (of_int \<lfloor>of_int (sum_list (map sint ds)) /
                                 (of_nat (length ds) * 1000000 :: rat)\<rfloor>)) \<and>
       (\<forall>d. ds = [d] \<longrightarrow> ms = Finite (of_int (sint d sdiv 1000000))))"
proof -
  define ds where "ds = latencies (map net [0..<numTests])"
  have few: "length ds \<le> 10"
    using length_latencies [of "map net [0..<numTests]"] by (simp add: ds_def numTests_def)
  have out: "snd (measureIdleLatency testURL net) =
      (if ds = [] then (Finite 0, Some (Errorf ''all latency tests failed''))
       else (float64_of_int64 (Milliseconds (div64 (sum_list ds) (of_nat (length ds)))), None))"
    by (simp add: measureIdleLatency_outcome ds_def Let_def)
  have mean: "float64_of_int64 (Milliseconds (div64 (sum_list ds) (of_nat (length ds)))) =
      Finite (of_int \<lfloor>of_int (sum_list (map sint ds)) / (of_nat (length ds) * 1000000 :: rat)\<rfloor>)"
    if "ds \<noteq> []" "\<forall>d\<in>set ds. 0 \<le> sint d" "sum_list (map sint ds) < 2 ^ 63"
    using that few by (intro mean_milliseconds) simp_all
  have lone: "float64_of_int64 (Milliseconds (div64 (sum_list ds) (of_nat (length ds)))) =
      Finite (of_int (sint d sdiv 1000000))" if "ds = [d]" for d
    using that lone_milliseconds [of d] by simp
  show ?thesis
    unfolding Let_def ds_def [symmetric] out
    using mean lone by (cases "ds = []") simp_all
qed

theorem latency_sampler_mean_witness:
  "latencies (map patchy_probes [0..<numTests]) \<noteq> [] \<and>
   snd (measureIdleLatency ''u'' patchy_probes) = (Finite 20, None) \<and>
   latencies (map lone_probe [0..<numTests]) = [1900000] \<and>
   snd (measureIdleLatency ''u'' lone_probe) = (Finite 1, None) \<and>
   latencies (map silent_probes [0..<numTests]) = [] \<and>
   snd (snd (measureIdleLatency ''u'' silent_probes)) =
     Some (Errorf ''all latency tests failed'')"
proof -
  have ds: "latencies (map patchy_probes [0..<numTests]) =
      [20500000, 20500001, 20500002, 20500004, 20500005, 20500006, 20500008, 20500009]"
    by code_simp
  have lone: "latencies (map lone_probe [0..<numTests]) = [1900000]"
    by code_simp
  have none: "latencies (map silent_probes [0..<numTests]) = []"
    by code_simp
  have "\<lfloor>of_int 164000035 / (of_int 8000000 :: rat)\<rfloor> = 164000035 div 8000000"
    by (rule floor_divide_of_int_eq)
  then have f1: "\<lfloor>32800007 / (1600000 :: rat)\<rfloor> = 20"
    by simp
  have "\<lfloor>of_int 19 / (of_int 10 :: rat)\<rfloor> = 19 div 10"
    by (rule floor_divide_of_int_eq)
  then have f2: "\<lfloor>19 / (10 :: rat)\<rfloor> = 1"
    by simp
  show ?thesis
    using latency_sampler_mean [of patchy_probes "''u''"]
      latency_sampler_mean [of lone_probe "''u''"]
      latency_sampler_mean [of silent_probes "''u''"]
    unfolding Let_def ds lone none
    by (simp add: split_beta prod_eq_iff signed_divide_int_def f1 f2)
qed

section \<open>Pacing of the latency sampler\<close>

text \<open>
  C8. The claim asks for the 100 ms delay between any two consecutive requests. When
  the first request fails, the second follows it with no sleep between them: the
  \<open>continue\<close> after the failed \<open>client.Do\<close> skips \<open>time.Sleep\<close>.
\<close>

theorem no_pacing_after_failed_request:
  "take 4 (fst (measureIdleLatency ''u'' first_fails)) =
     [Get ''u'', Get ''u'', Sleep (100 * Millisecond), Get ''u'']"
  by code_simp

section \<open>Loaded latency that cannot be measured\<close>

lemma measureIdleLatency_silent:
  "latencies (map net [0..<numTests]) = [] \<Longrightarrow>
     snd (measureIdleLatency u net) = (Finite 0, Some (Errorf ''all latency tests failed''))"
  by (simp add: measureIdleLatency_outcome)

lemma measureDownloadSpeed_silent:
  assumes "latencies (map l [0..<numTests]) = []"
  shows "measureDownloadSpeed c d u ph l =
           map_option (\<lambda>(st, mbps, lat, err).
               (case st of DownloadStage ws tr \<Rightarrow>
                  DownloadStage ws (Sleep (2 * Second) # fst (measureIdleLatency u l)) | _ \<Rightarrow> st,
                mbps, Finite 0, None))
             (measureDownloadSpeed c d u ph l')"
  using measureIdleLatency_silent [OF assms, of u]
  by (cases "measureIdleLatency u l"; cases "measureIdleLatency u l'")
     (auto simp: measureDownloadSpeed_def Let_def split: option.splits)

text \<open>
  C10. When none of the ten probes sent under load gets a response, the download stage
  still returns no error and reports the latency 0. A run that returns a result with
  other answers to those probes returns, with no answer to them, the same result but
  for \<open>ResponsivenessMs = 0\<close> and \<open>Responsiveness = High\<close>.
\<close>

theorem loaded_latency_failure_ignored:
  assumes "latencies (map (loaded net) [0..<numTests]) = []"
  shows "(measureDownloadSpeed c d u ph (loaded net) = Some (st, mbps, lat, err) \<longrightarrow>
            lat = Finite 0 \<and> err = None) \<and>
         (RunQualityTest (net\<lparr>loaded := l\<rparr>) cfg = Some (stages', Inr r) \<longrightarrow>
            (\<exists>stages. RunQualityTest net cfg =
               Some (stages, Inr (r\<lparr>Responsiveness := ''High'', ResponsivenessMs := Finite 0\<rparr>))))"
proof -
  note dl = measureDownloadSpeed_silent [OF assms]
  have a: "lat = Finite 0 \<and> err = None"
    if "measureDownloadSpeed c d u ph (loaded net) = Some (st, mbps, lat, err)"
    using that dl [of c d u ph "loaded net"] by (auto split: prod.splits)
  have high: "responsiveness (Finite 0) = ''High''"
    by (simp add: responsiveness_def)
  have b: "\<exists>stages. RunQualityTest net cfg =
               Some (stages, Inr (r\<lparr>Responsiveness := ''High'', ResponsivenessMs := Finite 0\<rparr>))"
    if "RunQualityTest (net\<lparr>loaded := l\<rparr>) cfg = Some (stages', Inr r)"
    using that unfolding RunQualityTest_def Let_def
    by (auto simp: high dl [where l' = l] split: option.splits if_splits prod.splits)
  from a b show ?thesis by blast
qed

theorem loaded_latency_failure_ignored_witness:
  "latencies (map (loaded unanswered_under_load) [0..<numTests]) = [] \<and>
   (\<exists>stages' r. RunQualityTest steady_network None = Some (stages', Inr r)) \<and>
   (\<exists>stages. RunQualityTest unanswered_under_load None =
      Some (stages, Inr (steady_result\<lparr>Responsiveness := ''High'', ResponsivenessMs := Finite 0\<rparr>)))"
proof -
  have silent: "latencies (map (loaded unanswered_under_load) [0..<numTests]) = []"
    by code_simp
  have same: "unanswered_under_load\<lparr>loaded := loaded steady_network\<rparr> = steady_network"
    by (simp add: unanswered_under_load_def)
  obtain stages' where run: "RunQualityTest steady_network None = Some (stages', Inr steady_result)"
    using steady_run by auto
  from loaded_latency_failure_ignored [OF silent, of _ _ _ _ _ _ _ _ "loaded steady_network" None stages' steady_result]
    run silent
  show ?thesis
    unfolding same by blast
qed

section \<open>The upload stage\<close>






section \<open>Upload attempts\<close>

lemma uploadWorker_eq:
  "uploadWorker deadline target chunkSize ps =
     (if \<exists>t\<in>set ps. \<not> live deadline t
      then Some (map (\<lambda>t. Post target chunkSize) (filter sent (takeWhile (live deadline) ps)),
                 word_of_int chunkSize *
                   of_nat (length (filter accepted (takeWhile (live deadline) ps))))
      else None)"
proof (induction ps)
  case Nil
  then show ?case by simp
next
  case (Cons t ps)
  show ?case
  proof (cases "live deadline t")
    case False
    then show ?thesis
      by (auto simp: live_def)
  next
    case True
    then have l: "Before (now t) deadline" "\<not> ctxDone t"
      by (simp_all add: live_def)
    show ?thesis
    proof (cases "answer t")
      case NewRequestFails
      then have "\<not> sent t" "\<not> accepted t"
        by (simp_all add: sent_def accepted_def)
      with True l NewRequestFails show ?thesis
        by (simp add: Cons.IH)
    next
      case DoFails
      then have "sent t" "\<not> accepted t"
        by (simp_all add: sent_def accepted_def)
      with True l DoFails show ?thesis
        by (simp add: Cons.IH)
    next
      case (Answers status bytes)
      then have "sent t" "accepted t = statusOK status"
        by (simp_all add: sent_def accepted_def statusOK_def)
      with True l Answers show ?thesis
        by (simp add: Cons.IH algebra_simps)
    qed
  qed
qed

lemma measureUploadSpeed_error:
  "measureUploadSpeed c ph = Some (st, mbps, err) \<Longrightarrow>
     err = (if UploadServers c = [] then Some (Errorf ''no upload servers configured'')
            else if elapsed ph = 0 then Some (Errorf ''upload duration was zero'')
            else None)"
  by (auto simp: measureUploadSpeed_def Let_def split: option.splits if_splits)

lemma those_map_the:
  "those (map f xs) = Some ys \<Longrightarrow>
     ys = map (\<lambda>x. the (f x)) xs \<and> (\<forall>x\<in>set xs. f x \<noteq> None)"
proof (induction xs arbitrary: ys)
  case Nil
  then show ?case by simp
next
  case (Cons x xs)
  then obtain y ys' where "f x = Some y" "those (map f xs) = Some ys'" "ys = y # ys'"
    by (auto split: option.splits)
  with Cons.IH [of ys'] show ?case by simp
qed

lemma sum_list_chunks:
  "sum_list (map (\<lambda>i. w * of_nat (f i)) xs) = w * of_nat (sum_list (map f xs))"
  for w :: int64
  by (induction xs) (simp_all add: algebra_simps)

lemma uploadWorkers_total:
  assumes "uploadWorkers c ph = Some rs"
  shows "sum_list (map snd rs) =
           word_of_int (if UploadChunkSize c \<le> 0 then 512 * 1024 else UploadChunkSize c) *
           of_nat (sum_list (map (\<lambda>i. length (filter accepted
                      (takeWhile (live (Add (startTime ph) (div64 (TestDuration c) 2)))
                         (passes ph i))))
                    [0..<nat (NumConnections c)]))"
    and "map fst rs =
           map (\<lambda>i. map (\<lambda>t. Post (UploadServers c ! (i mod length (UploadServers c)))
                              (if UploadChunkSize c \<le> 0 then 512 * 1024 else UploadChunkSize c))
                     (filter sent
                        (takeWhile (live (Add (startTime ph) (div64 (TestDuration c) 2)))
                           (passes ph i))))
               [0..<nat (NumConnections c)]"
proof -
  let ?chunk = "if UploadChunkSize c \<le> 0 then 512 * 1024 else UploadChunkSize c"
  let ?D = "Add (startTime ph) (div64 (TestDuration c) 2)"
  let ?srv = "\<lambda>i. UploadServers c ! (i mod length (UploadServers c))"
  let ?w = "\<lambda>i. uploadWorker ?D (?srv i) ?chunk (passes ph i)"
  let ?xs = "[0..<nat (NumConnections c)]"
  have th: "those (map ?w ?xs) = Some rs"
    using assms by (simp add: uploadWorkers_def Let_def)
  have rs: "rs = map (\<lambda>i. the (?w i)) ?xs" and some: "\<forall>i\<in>set ?xs. ?w i \<noteq> None"
    using those_map_the [OF th] by blast+
  have each: "the (?w i) =
      (map (\<lambda>t. Post (?srv i) ?chunk) (filter sent (takeWhile (live ?D) (passes ph i))),
       word_of_int ?chunk * of_nat (length (filter accepted (takeWhile (live ?D) (passes ph i)))))"
    if "i \<in> set ?xs" for i
  proof -
    from some that have "?w i \<noteq> None"
      by blast
    then have "\<exists>t\<in>set (passes ph i). \<not> live ?D t"
      unfolding uploadWorker_eq by (metis option.distinct(1))
    then show ?thesis
      unfolding uploadWorker_eq by (simp only: if_True option.sel)
  qed
  have "map snd rs =
      map (\<lambda>i. word_of_int ?chunk *
                of_nat (length (filter accepted (takeWhile (live ?D) (passes ph i))))) ?xs"
    unfolding rs using each by (simp add: o_def)
  then show "sum_list (map snd rs) =
           word_of_int ?chunk *
           of_nat (sum_list (map (\<lambda>i. length (filter accepted
                      (takeWhile (live ?D) (passes ph i)))) ?xs))"
    by (simp only: sum_list_chunks)
  show "map fst rs =
           map (\<lambda>i. map (\<lambda>t. Post (?srv i) ?chunk)
                     (filter sent (takeWhile (live ?D) (passes ph i)))) ?xs"
    unfolding rs using each by (simp add: o_def)
qed

text \<open>
  C6. An upload worker that returns has added to the total one chunk for each attempt
  answered with a status from 200 and below 400, and nothing for any other attempt. Its
  trace is one POST for every pass that built a request, up to the first pass that
  finds the deadline gone or the context cancelled, and nothing else: after a refused or
  failed attempt the next pass sends the next request, with no sleep between them. The
  worker returns exactly when there is such a closing pass. The error of the upload
  phase depends on the configuration and on the elapsed time only, never on what an
  attempt was answered. The bitrate the phase returns is computed from the shared
  total, which is the chunk size times the number of attempts, over all workers, that
  were answered with a status from 200 and below 400.
\<close>

theorem upload_attempts_counted_by_status:
  "(uploadWorker deadline target chunkSize ps = Some (tr, n) \<longrightarrow>
      n = word_of_int chunkSize *
            of_nat (length (filter accepted (takeWhile (live deadline) ps))) \<and>
      tr = map (\<lambda>t. Post target chunkSize) (filter sent (takeWhile (live deadline) ps))) \<and>
   (uploadWorker deadline target chunkSize ps \<noteq> None) = (\<exists>t\<in>set ps. \<not> live deadline t) \<and>
   (measureUploadSpeed c ph = Some (st, mbps, err) \<longrightarrow>
      err = (if UploadServers c = [] then Some (Errorf ''no upload servers configured'')
             else if elapsed ph = 0 then Some (Errorf ''upload duration was zero'')
             else None)) \<and>
   (UploadServers c \<noteq> [] \<and> elapsed ph \<noteq> 0 \<and>
    measureUploadSpeed c ph = Some (st, mbps, err) \<longrightarrow>
      mbps =
        Mbps (word_of_int (if UploadChunkSize c \<le> 0 then 512 * 1024 else UploadChunkSize c) *
              of_nat (sum_list (map (\<lambda>i. length (filter accepted
                         (takeWhile (live (Add (startTime ph) (div64 (TestDuration c) 2)))
                            (passes ph i))))
                       [0..<nat (NumConnections c)])))
             (elapsed ph) \<and>
      st = UploadStage
             (map (\<lambda>i. map (\<lambda>t. Post (UploadServers c ! (i mod length (UploadServers c)))
                                (if UploadChunkSize c \<le> 0 then 512 * 1024
                                 else UploadChunkSize c))
                       (filter sent
                          (takeWhile (live (Add (startTime ph) (div64 (TestDuration c) 2)))
                             (passes ph i))))
                 [0..<nat (NumConnections c)]))"
proof -
  have total: "mbps =
        Mbps (word_of_int (if UploadChunkSize c \<le> 0 then 512 * 1024 else UploadChunkSize c) *
              of_nat (sum_list (map (\<lambda>i. length (filter accepted
                         (takeWhile (live (Add (startTime ph) (div64 (TestDuration c) 2)))
                            (passes ph i))))
                       [0..<nat (NumConnections c)])))
             (elapsed ph) \<and>
      st = UploadStage
             (map (\<lambda>i. map (\<lambda>t. Post (UploadServers c ! (i mod length (UploadServers c)))
                                (if UploadChunkSize c \<le> 0 then 512 * 1024
                                 else UploadChunkSize c))
                       (filter sent
                          (takeWhile (live (Add (startTime ph) (div64 (TestDuration c) 2)))
                             (passes ph i))))
                 [0..<nat (NumConnections c)])"
    if "UploadServers c \<noteq> []" "elapsed ph \<noteq> 0"
      and run: "measureUploadSpeed c ph = Some (st, mbps, err)"
  proof -
    from that obtain rs where rs: "uploadWorkers c ph = Some rs"
      and m: "mbps = Mbps (sum_list (map snd rs)) (elapsed ph)"
      and s: "st = UploadStage (map fst rs)"
      by (auto simp: measureUploadSpeed_def Let_def split: option.splits)
    show ?thesis
      unfolding m s uploadWorkers_total [OF rs] by simp
  qed
  show ?thesis
    using measureUploadSpeed_error [of c ph st mbps err] total
    by (auto simp: uploadWorker_eq)
qed

theorem upload_attempts_counted_by_status_witness:
  "uploadWorker 100 ''u'' 524288 mixed_passes =
     Some ([Post ''u'' 524288, Post ''u'' 524288, Post ''u'' 524288, Post ''u'' 524288],
           2 * 524288) \<and>
   filter accepted (takeWhile (live 100) mixed_passes) =
     [\<lparr>now = 10, ctxDone = False, answer = Answers 200 0\<rparr>,
      \<lparr>now = 40, ctxDone = False, answer = Answers 302 0\<rparr>] \<and>
   (\<exists>st mbps. measureUploadSpeed DefaultConfig (upload steady_network) = Some (st, mbps, None)) \<and>
   UploadServers DefaultConfig \<noteq> [] \<and> elapsed busy_upload \<noteq> 0 \<and>
   sum_list (map (\<lambda>i. length (filter accepted
               (takeWhile (live (Add (startTime busy_upload) (div64 (TestDuration DefaultConfig) 2)))
                  (passes busy_upload i))))
             [0..<nat (NumConnections DefaultConfig)]) = 12 \<and>
   map_option snd (measureUploadSpeed DefaultConfig busy_upload) =
     Some (Mbps (12 * 524288) 5000000100, None) \<and>
   Mbps (12 * 524288) 5000000100 \<noteq> Finite 0"
proof -
  have run: "uploadWorker 100 ''u'' 524288 mixed_passes =
     Some ([Post ''u'' 524288, Post ''u'' 524288, Post ''u'' 524288, Post ''u'' 524288],
           2 * 524288)"
    by code_simp
  have acc: "filter accepted (takeWhile (live 100) mixed_passes) =
     [\<lparr>now = 10, ctxDone = False, answer = Answers 200 0\<rparr>,
      \<lparr>now = 40, ctxDone = False, answer = Answers 302 0\<rparr>]"
    by code_simp
  have "map_option (snd \<circ> snd) (measureUploadSpeed DefaultConfig (upload steady_network)) = Some None"
    by code_simp
  then obtain st mbps where up: "measureUploadSpeed DefaultConfig (upload steady_network) = Some (st, mbps, None)"
    by auto
  have "map_option (snd \<circ> snd) (measureUploadSpeed DefaultConfig busy_upload) = Some None"
    by code_simp
  then obtain st' mbps' where busy: "measureUploadSpeed DefaultConfig busy_upload = Some (st', mbps', None)"
    by auto
  have us: "UploadServers DefaultConfig \<noteq> []" "UploadChunkSize DefaultConfig = 524288"
    by (simp_all add: DefaultConfig_def)
  have el: "elapsed busy_upload \<noteq> 0" "elapsed busy_upload = 5000000100"
    by (simp_all add: busy_upload_def)
  have cnt: "sum_list (map (\<lambda>i. length (filter accepted
               (takeWhile (live (Add (startTime busy_upload) (div64 (TestDuration DefaultConfig) 2)))
                  (passes busy_upload i))))
             [0..<nat (NumConnections DefaultConfig)]) = 12"
    by code_simp
  have nz: "Mbps (12 * 524288) 5000000100 \<noteq> Finite 0"
    by code_simp
  from upload_attempts_counted_by_status
    [of 100 "''u''" 524288 mixed_passes _ "2 * 524288" DefaultConfig "upload steady_network" st mbps None]
    run acc up
  have one: "\<exists>st mbps. measureUploadSpeed DefaultConfig (upload steady_network) = Some (st, mbps, None)"
    by blast
  from upload_attempts_counted_by_status
    [of _ _ _ _ _ _ DefaultConfig busy_upload st' mbps' None] us el(1) busy
  have "mbps' = Mbps (word_of_int 524288 * of_nat 12) (elapsed busy_upload)"
    unfolding cnt by simp
  then have two: "map_option snd (measureUploadSpeed DefaultConfig busy_upload) =
     Some (Mbps (12 * 524288) 5000000100, None)"
    using busy el(2) by simp
  from run acc one us(1) el(1) cnt two nz show ?thesis
    by blast
qed

section \<open>A phase that transfers nothing\<close>

lemma Seconds_eq_0: "Seconds el = 0 \<longleftrightarrow> el = 0"
proof -
  have "sint el = 0 \<longleftrightarrow> el = 0"
    by (rule signed_eq_0_iff)
  then show ?thesis
    by (simp add: Seconds_def del: of_int_sint) 
qed

lemma Mbps_zero: "el \<noteq> 0 \<Longrightarrow> Mbps 0 el = Finite 0"
  by (simp add: Mbps_def fdiv_def Round_def Let_def Seconds_eq_0)

lemma sum_list_zero: "\<forall>r\<in>set rs. snd r = (0 :: int64) \<Longrightarrow> sum_list (map snd rs) = 0"
  by (induction rs) simp_all

text \<open>
  C4, as the claim states it, fails: in an upload phase that transfers nothing and
  reads an elapsed time of zero, the result is the error \<open>upload duration was zero\<close>,
  not 0 Mbps with a \<open>nil\<close> error.
\<close>

theorem zero_transfer_upload_error:
  "uploadWorkers DefaultConfig cancelled_phase = Some [([], 0), ([], 0), ([], 0), ([], 0)] \<and>
   measureUploadSpeed DefaultConfig cancelled_phase =
     Some (UploadStage [[], [], [], []], Finite 0, Some (Errorf ''upload duration was zero''))"
  by code_simp

text \<open>
  C4, amended. A phase whose workers have all returned with nothing added to the total,
  and whose elapsed time is not zero, returns 0 Mbps and a \<open>nil\<close> error: the download
  phase always, the upload phase when there is an upload server. An upload phase whose
  elapsed time is zero returns the error \<open>upload duration was zero\<close>.
\<close>

theorem zero_transfer_is_zero_mbps:
  "(downloadWorkers c downloadURL ph = Some rs \<and> (\<forall>r\<in>set rs. snd r = 0) \<and> elapsed ph \<noteq> 0 \<longrightarrow>
      (\<exists>st lat. measureDownloadSpeed c downloadURL latencyURL ph ld =
                  Some (st, Finite 0, lat, None))) \<and>
   (UploadServers c \<noteq> [] \<and> uploadWorkers c ph = Some rs \<and> (\<forall>r\<in>set rs. snd r = 0) \<and>
    elapsed ph \<noteq> 0 \<longrightarrow>
      (\<exists>st. measureUploadSpeed c ph = Some (st, Finite 0, None))) \<and>
   (UploadServers c \<noteq> [] \<and> uploadWorkers c ph = Some rs \<and> elapsed ph = 0 \<longrightarrow>
      measureUploadSpeed c ph =
        Some (UploadStage (map fst rs), Finite 0, Some (Errorf ''upload duration was zero'')))"
proof -
  have d: "\<exists>st lat. measureDownloadSpeed c downloadURL latencyURL ph ld =
                  Some (st, Finite 0, lat, None)"
    if "downloadWorkers c downloadURL ph = Some rs" "\<forall>r\<in>set rs. snd r = 0" "elapsed ph \<noteq> 0"
    using that sum_list_zero [of rs]
    by (cases "measureIdleLatency latencyURL ld")
       (simp add: measureDownloadSpeed_def Let_def Mbps_zero)
  have u: "\<exists>st. measureUploadSpeed c ph = Some (st, Finite 0, None)"
    if "UploadServers c \<noteq> []" "uploadWorkers c ph = Some rs" "\<forall>r\<in>set rs. snd r = 0"
      "elapsed ph \<noteq> 0"
    using that sum_list_zero [of rs]
    by (simp add: measureUploadSpeed_def Let_def Mbps_zero)
  have z: "measureUploadSpeed c ph =
        Some (UploadStage (map fst rs), Finite 0, Some (Errorf ''upload duration was zero''))"
    if "UploadServers c \<noteq> []" "uploadWorkers c ph = Some rs" "elapsed ph = 0"
    using that by (simp add: measureUploadSpeed_def Let_def)
  from d u z show ?thesis by blast
qed

theorem zero_transfer_is_zero_mbps_witness:
  "downloadWorkers DefaultConfig ''d'' (download steady_network) =
     Some [([Get ''d''], 0), ([Get ''d''], 0), ([Get ''d''], 0), ([Get ''d''], 0)] \<and>
   elapsed (download steady_network) \<noteq> 0 \<and>
   (\<exists>st lat. measureDownloadSpeed DefaultConfig ''d'' ''l'' (download steady_network) silent_probes =
               Some (st, Finite 0, lat, None)) \<and>
   UploadServers DefaultConfig \<noteq> [] \<and>
   (\<exists>rs. uploadWorkers DefaultConfig (upload steady_network) = Some rs \<and>
         (\<forall>r\<in>set rs. snd r = 0)) \<and>
   elapsed (upload steady_network) \<noteq> 0 \<and>
   (\<exists>st. measureUploadSpeed DefaultConfig (upload steady_network) = Some (st, Finite 0, None)) \<and>
   elapsed cancelled_phase = 0 \<and>
   measureUploadSpeed DefaultConfig cancelled_phase =
     Some (UploadStage [[], [], [], []], Finite 0, Some (Errorf ''upload duration was zero''))"
proof -
  have dw: "downloadWorkers DefaultConfig ''d'' (download steady_network) =
     Some [([Get ''d''], 0), ([Get ''d''], 0), ([Get ''d''], 0), ([Get ''d''], 0)]"
    by code_simp
  have de: "elapsed (download steady_network) \<noteq> 0"
    by code_simp
  have uw: "uploadWorkers DefaultConfig (upload steady_network) =
     Some [([Post ''https://httpbin.org/post'' 524288], 0),
           ([Post ''https://speed.cloudflare.com/__up?bytes=10000000'' 524288], 0),
           ([Post ''https://httpbin.org/post'' 524288], 0),
           ([Post ''https://speed.cloudflare.com/__up?bytes=10000000'' 524288], 0)]"
    by code_simp
  have ue: "elapsed (upload steady_network) \<noteq> 0"
    by code_simp
  have us: "UploadServers DefaultConfig \<noteq> []"
    by (simp add: DefaultConfig_def)
  have cw: "uploadWorkers DefaultConfig cancelled_phase = Some [([], 0), ([], 0), ([], 0), ([], 0)]"
    by code_simp
  have ce: "elapsed cancelled_phase = 0"
    by (simp add: cancelled_phase_def)
  note inst_d = zero_transfer_is_zero_mbps
    [of DefaultConfig "''d''" "download steady_network"
        "[([Get ''d''], 0), ([Get ''d''], 0), ([Get ''d''], 0), ([Get ''d''], 0)]"
        "''l''" silent_probes, THEN conjunct1]
  note inst_u = zero_transfer_is_zero_mbps
    [of DefaultConfig _ "upload steady_network"
        "[([Post ''https://httpbin.org/post'' 524288], 0),
          ([Post ''https://speed.cloudflare.com/__up?bytes=10000000'' 524288], 0),
          ([Post ''https://httpbin.org/post'' 524288], 0),
          ([Post ''https://speed.cloudflare.com/__up?bytes=10000000'' 524288], 0)]",
     THEN conjunct2, THEN conjunct1]
  note inst_z = zero_transfer_is_zero_mbps
    [of DefaultConfig _ cancelled_phase "[([], 0), ([], 0), ([], 0), ([], 0)]",
     THEN conjunct2, THEN conjunct2]
  have a: "\<exists>st lat. measureDownloadSpeed DefaultConfig ''d'' ''l'' (download steady_network) silent_probes =
               Some (st, Finite 0, lat, None)"
    using inst_d dw de by simp
  have b: "\<exists>st. measureUploadSpeed DefaultConfig (upload steady_network) = Some (st, Finite 0, None)"
    using inst_u us uw ue by simp
  have c: "measureUploadSpeed DefaultConfig cancelled_phase =
     Some (UploadStage [[], [], [], []], Finite 0, Some (Errorf ''upload duration was zero''))"
    using inst_z us cw ce by simp
  from dw de a us uw ue b ce c show ?thesis
    by simp
qed

end
